theory Spec2Isabelle
  imports Main "HOL-Library.Sublist"
begin

section \<open>Python values, exceptions and string rendering\<close>

text \<open>
  The client library \<^verbatim>\<open>data_service_ops.py\<close> is dynamically typed. Arguments that the
  code inspects with \<^verbatim>\<open>is None\<close>, \<^verbatim>\<open>isinstance\<close> or \<^verbatim>\<open>in\<close> are modelled as values of
  \<open>pyval\<close>: the built-in values a caller can pass (\<^verbatim>\<open>None\<close>, integers, strings).
  Scalar tensors, which the library itself produces (a dataset id, a joined job name)
  and accepts in some places, are the type \<open>tensor\<close>; \<open>tfval\<close> is either.
\<close>

datatype pyval = PyNone | PyInt int | PyStr string

datatype tensor = Int64Tensor int | StringTensor string

datatype tfval = Py pyval | Tn tensor

datatype dtype = DT_INT64 | DT_STRING | DT_VARIANT

text \<open>
  Exceptions are values. A Python exception carries the tuple of arguments it was
  raised with; \<open>ValueError\<close> keeps that tuple, \<open>UnboundLocalError\<close> keeps the name of
  the local variable that was read before it was assigned, \<open>TypeError\<close> its message.
  \<open>OpError\<close> stands for whatever an operation outside this file raises.
\<close>

datatype error =
    ValueError "pyval list"
  | UnboundLocalError string
  | TypeError string
  | OpError string

text \<open>Sequencing of computations that may raise: the first exception wins.\<close>

definition bind :: "error + 'a \<Rightarrow> ('a \<Rightarrow> error + 'b) \<Rightarrow> error + 'b" where
  "bind m f = (case m of Inl e \<Rightarrow> Inl e | Inr x \<Rightarrow> f x)"

text \<open>Decimal rendering of integers, as \<^verbatim>\<open>str\<close> does for an \<^verbatim>\<open>int\<close>.\<close>

definition digit_char :: "nat \<Rightarrow> char" where
  "digit_char d = ''0123456789'' ! (d mod 10)"

fun digits :: "nat \<Rightarrow> string" where
  "digits n = (if n < 10 then [digit_char n] else digits (n div 10) @ [digit_char (n mod 10)])"

declare digits.simps [simp del]

definition decimal :: "int \<Rightarrow> string" where
  "decimal i = (if i < 0 then CHR ''-'' # digits (nat (- i)) else digits (nat i))"

text \<open>\<^verbatim>\<open>sep.join(parts)\<close>.\<close>

fun join :: "string \<Rightarrow> string list \<Rightarrow> string" where
  "join sep [] = []"
| "join sep [x] = x"
| "join sep (x # y # ys) = x @ sep @ join sep (y # ys)"

text \<open>
  \<^verbatim>\<open>str(v)\<close>, \<^verbatim>\<open>repr(v)\<close> and \<^verbatim>\<open>str(type(v))\<close>. The \<^verbatim>\<open>repr\<close> of a string is written with
  single quotes and no escapes, which is what Python prints for a string without
  quotes, backslashes or control characters; the code only formats the constant
  lists \<^verbatim>\<open>valid_modes\<close> and \<^verbatim>\<open>valid_compressions\<close> this way.
\<close>

fun py_str :: "pyval \<Rightarrow> string" where
  "py_str PyNone = ''None''"
| "py_str (PyInt i) = decimal i"
| "py_str (PyStr s) = s"

fun py_repr :: "pyval \<Rightarrow> string" where
  "py_repr PyNone = ''None''"
| "py_repr (PyInt i) = decimal i"
| "py_repr (PyStr s) = [CHR 0x27] @ s @ [CHR 0x27]"

definition py_str_list :: "pyval list \<Rightarrow> string" where
  "py_str_list vs = ''['' @ join '', '' (map py_repr vs) @ '']''"

fun py_type_str :: "pyval \<Rightarrow> string" where
  "py_type_str PyNone = ''<class '' @ [CHR 0x27] @ ''NoneType'' @ [CHR 0x27] @ ''>''"
| "py_type_str (PyInt i) = ''<class '' @ [CHR 0x27] @ ''int'' @ [CHR 0x27] @ ''>''"
| "py_type_str (PyStr s) = ''<class '' @ [CHR 0x27] @ ''str'' @ [CHR 0x27] @ ''>''"

section \<open>Processing modes\<close>

text \<open>
  \<^verbatim>\<open>ProcessingMode.validate\<close> (lines 48-57). \<^verbatim>\<open>mode not in valid_modes\<close> compares
  \<^verbatim>\<open>mode\<close> with each element by \<^verbatim>\<open>==\<close>, which on built-in values is equality of
  type and content. The function returns \<^verbatim>\<open>None\<close> (here \<open>Inr ()\<close>) or raises.
\<close>

definition PARALLEL_EPOCHS :: string where
  "PARALLEL_EPOCHS = ''parallel_epochs''"

definition DISTRIBUTED_EPOCH :: string where
  "DISTRIBUTED_EPOCH = ''distributed_epoch''"

definition validate :: "pyval \<Rightarrow> error + unit" where
  "validate mode =
     (let valid_modes = [PyStr PARALLEL_EPOCHS, PyStr DISTRIBUTED_EPOCH]
      in if mode \<notin> set valid_modes
         then Inl (ValueError [PyStr (py_str mode
                 @ '' is not a valid processing mode. Valid modes: ''
                 @ py_str_list valid_modes)])
         else Inr ())"


section \<open>Data model\<close>

text \<open>
  Element specs, dataset options and datasets. The Python API builds a dataset by
  wrapping one dataset object in another (\<^verbatim>\<open>map\<close>, \<^verbatim>\<open>prefetch\<close>, \<^verbatim>\<open>with_options\<close>);
  \<open>dataset\<close> is that tree. The three functions passed to \<^verbatim>\<open>map\<close> in this file are
  the constructors of \<open>map_func\<close>.
\<close>

datatype element_spec = TensorSpec "nat list" dtype | UserSpec nat

datatype AutoShardPolicy = OFF | AUTO | FILE | DATA

datatype ExternalStatePolicy = WARN | IGNORE | FAIL

record options =
  auto_shard_policy :: AutoShardPolicy
  experimental_external_state_policy :: "ExternalStatePolicy option"

datatype map_func =
    compress                 \<comment> \<open>\<^verbatim>\<open>lambda *x: compression_ops.compress(x)\<close>\<close>
  | pass_through             \<comment> \<open>\<^verbatim>\<open>lambda x: x\<close>\<close>
  | uncompress element_spec  \<comment> \<open>\<^verbatim>\<open>lambda x: compression_ops.uncompress(x, output_spec=element_spec)\<close>\<close>

text \<open>The keyword arguments shared by the functions of this file.\<close>

record job_params =
  job_name :: tfval
  consumer_index :: "int option"
  num_consumers :: "int option"
  max_outstanding_requests :: "int option"
  max_request_pipelining_per_worker :: int
  task_refresh_interval_hint_ms :: "int option"
  data_transfer_protocol :: "string option"
  target_workers :: string

text \<open>
  The arguments of \<^verbatim>\<open>_DataServiceDatasetV2.__init__\<close> (lines 74-87); the five that are
  not in \<open>job_params\<close> carry the prefix \<open>kw_\<close>.
\<close>

record reader_args = job_params +
  kw_dataset_id :: int
  kw_processing_mode :: pyval
  kw_address :: pyval
  kw_element_spec :: element_spec
  kw_protocol :: pyval

text \<open>The attributes \<^verbatim>\<open>__init__\<close> stores on \<^verbatim>\<open>self\<close> (lines 154-181).\<close>

record reader_self =
  self_dataset_id :: tensor
  self_processing_mode :: tensor
  self_address :: tensor
  self_protocol :: tensor
  self_job_name :: tensor
  self_consumer_index :: tensor
  self_num_consumers :: tensor
  self_max_outstanding_requests :: tensor
  self_max_request_pipelining_per_worker :: tensor
  self_element_spec :: element_spec
  self_target_workers :: string

datatype dataset =
    UserDataset nat
  | DataServiceDatasetV2 reader_self
  | MapDataset dataset map_func int
  | PrefetchDataset dataset int
  | DebugOptionsDataset dataset
  | OptionsDataset dataset options

text \<open>
  The \<^verbatim>\<open>service\<close> argument: a tuple (\<^verbatim>\<open>isinstance(service, tuple)\<close>) or anything else.
\<close>

datatype service_arg = ServiceTuple "pyval list" | ServiceVal pyval

text \<open>What \<^verbatim>\<open>gen_experimental_dataset_ops.register_dataset\<close> is called with.\<close>

record registration =
  reg_dataset :: dataset
  reg_address :: pyval
  reg_protocol :: pyval
  reg_external_state_policy :: ExternalStatePolicy

section \<open>Operations defined outside this file\<close>

text \<open>
  Everything the file imports is a parameter, collected in \<open>env\<close>: the default
  protocol, \<^verbatim>\<open>dataset_ops.AUTOTUNE\<close>, \<^verbatim>\<open>compat.forward_compatible\<close>, \<^verbatim>\<open>tf2.enabled\<close>,
  \<^verbatim>\<open>ops.convert_to_tensor\<close>, the rendering of a tensor by \<^verbatim>\<open>str\<close> and of its type, the
  default \<^verbatim>\<open>dataset_ops.Options()\<close>, the options and element spec of a dataset, the
  superclass initializer, and the two generated operations. The dispatcher's answer
  to a registration is \<open>register_dataset_op\<close>.
\<close>

record env =
  TF_DATA_DefaultProtocol :: string
  AUTOTUNE :: int
  forward_compatible :: "nat \<Rightarrow> nat \<Rightarrow> nat \<Rightarrow> bool"
  tf2_enabled :: bool
  convert_to_tensor :: "tfval \<Rightarrow> dtype \<Rightarrow> error + tensor"
  tensor_str :: "tensor \<Rightarrow> string"
  tensor_type_str :: "tensor \<Rightarrow> string"
  Options :: options
  dataset_options :: "dataset \<Rightarrow> options"
  dataset_element_spec :: "dataset \<Rightarrow> element_spec"
  DatasetSource_init :: "tensor \<Rightarrow> error + unit"
  data_service_dataset_v2 :: "reader_self \<Rightarrow> int \<Rightarrow> (string \<times> string) list \<Rightarrow> error + tensor"
  register_dataset_op :: "registration \<Rightarrow> error + int"

definition tf_str :: "env \<Rightarrow> tfval \<Rightarrow> string" where
  "tf_str e v = (case v of Py p \<Rightarrow> py_str p | Tn t \<Rightarrow> tensor_str e t)"

definition tf_type_str :: "env \<Rightarrow> tfval \<Rightarrow> string" where
  "tf_type_str e v = (case v of Py p \<Rightarrow> py_type_str p | Tn t \<Rightarrow> tensor_type_str e t)"

text \<open>\<^verbatim>\<open>isinstance(v, six.string_types)\<close> and \<^verbatim>\<open>isinstance(v, ops.Tensor)\<close>.\<close>

fun isinstance_str :: "tfval \<Rightarrow> bool" where
  "isinstance_str (Py (PyStr s)) = True"
| "isinstance_str v = False"

fun isinstance_Tensor :: "tfval \<Rightarrow> bool" where
  "isinstance_Tensor (Tn t) = True"
| "isinstance_Tensor v = False"

text \<open>
  Modelled from the spec: \<^verbatim>\<open>string_ops.as_string\<close> and \<^verbatim>\<open>string_ops.string_join\<close> are
  defined outside this file. Following section 4.5 (the derived name embeds the dataset
  id and is concatenated with the caller's name), \<open>as_string\<close> is the decimal rendering
  of the id and \<open>string_join\<close> concatenates its inputs with the separator between them.
\<close>

definition as_string :: "int \<Rightarrow> string" where
  "as_string i = decimal i"

definition string_join :: "string list \<Rightarrow> string \<Rightarrow> string" where
  "string_join inputs separator = join separator inputs"

section \<open>Job names\<close>

text \<open>\<^verbatim>\<open>_check_job_name\<close> (lines 60-68); \<^verbatim>\<open>not job_name\<close> on a string is emptiness.\<close>

definition check_job_name :: "env \<Rightarrow> tfval \<Rightarrow> error + unit" where
  "check_job_name e jn =
     (if jn = Py PyNone then Inr ()
      else if \<not> isinstance_str jn
        then Inl (ValueError [PyStr (''job_name must be a string, but job_name was of type ''
                      @ tf_type_str e jn @ ''. job_name='' @ tf_str e jn)])
      else if jn = Py (PyStr [])
        then Inl (ValueError [PyStr ''job_name must not be empty''])
      else Inr ())"

section \<open>The reader object\<close>

text \<open>
  \<^verbatim>\<open>_DataServiceDatasetV2.__init__\<close> (lines 139-203), statement by statement.

  Line 139 reads \<^verbatim>\<open>if consumer_index is None != num_consumers is None\<close>. Python chains
  comparison operators: \<^verbatim>\<open>a is None != b is None\<close> is
  \<^verbatim>\<open>(a is None) and (None != b) and (b is None)\<close>, which is how the condition is written
  below.

  \<^verbatim>\<open>variant_tensor\<close> is assigned in the body (line 190), so it is a local variable of the
  function; reading a local that has no value yet raises \<^verbatim>\<open>UnboundLocalError\<close>.
  \<open>read_local\<close> is that read, on the value the local holds at the time (\<open>None\<close> for
  not assigned). At line 189, where the argument of the superclass initializer is
  evaluated, no assignment to \<^verbatim>\<open>variant_tensor\<close> has been executed.
\<close>

definition read_local :: "string \<Rightarrow> 'a option \<Rightarrow> error + 'a" where
  "read_local name slot = (case slot of None \<Rightarrow> Inl (UnboundLocalError name) | Some v \<Rightarrow> Inr v)"

definition DataServiceDatasetV2_init :: "env \<Rightarrow> reader_args \<Rightarrow> error + dataset" where
  "DataServiceDatasetV2_init e a =
     (if consumer_index a = None \<and> None \<noteq> num_consumers a \<and> num_consumers a = None
      then Inl (ValueError
             [PyStr ''Must either set both consumer_index and num_consumers, or neither. '',
              PyStr ''consumer_index: '',
              (case consumer_index a of None \<Rightarrow> PyNone | Some i \<Rightarrow> PyInt i),
              PyStr '', num_consumers: '',
              (case num_consumers a of None \<Rightarrow> PyNone | Some n \<Rightarrow> PyInt n)])
      else if num_consumers a \<noteq> None \<and> job_name a = Py PyNone
      then Inl (ValueError [PyStr ''job_name must be set when setting num_consumers''])
      else
       let job_name = (if job_name a = Py PyNone then Py (PyStr []) else job_name a);
           max_outstanding_requests =
             (case max_outstanding_requests a of None \<Rightarrow> AUTOTUNE e | Some m \<Rightarrow> m);
           task_refresh_interval_hint_ms =
             (case task_refresh_interval_hint_ms a of None \<Rightarrow> AUTOTUNE e | Some t \<Rightarrow> t)
       in
       bind (convert_to_tensor e (Py (PyInt (kw_dataset_id a))) DT_INT64) (\<lambda>t_dataset_id.
       bind (convert_to_tensor e (Py (kw_processing_mode a)) DT_STRING) (\<lambda>t_processing_mode.
       bind (convert_to_tensor e (Py (kw_address a)) DT_STRING) (\<lambda>t_address.
       bind (convert_to_tensor e (Py (kw_protocol a)) DT_STRING) (\<lambda>t_protocol.
       bind (convert_to_tensor e job_name DT_STRING) (\<lambda>t_job_name.
       bind (convert_to_tensor e
               (Py (PyInt (case consumer_index a of None \<Rightarrow> - 1 | Some i \<Rightarrow> i))) DT_INT64)
            (\<lambda>t_consumer_index.
       bind (convert_to_tensor e
               (Py (PyInt (case num_consumers a of None \<Rightarrow> - 1 | Some n \<Rightarrow> n))) DT_INT64)
            (\<lambda>t_num_consumers.
       bind (convert_to_tensor e (Py (PyInt max_outstanding_requests)) DT_INT64)
            (\<lambda>t_max_outstanding_requests.
       bind (convert_to_tensor e (Py (PyInt (max_request_pipelining_per_worker a))) DT_INT64)
            (\<lambda>t_max_request_pipelining_per_worker.
       let self = \<lparr> self_dataset_id = t_dataset_id,
                    self_processing_mode = t_processing_mode,
                    self_address = t_address,
                    self_protocol = t_protocol,
                    self_job_name = t_job_name,
                    self_consumer_index = t_consumer_index,
                    self_num_consumers = t_num_consumers,
                    self_max_outstanding_requests = t_max_outstanding_requests,
                    self_max_request_pipelining_per_worker = t_max_request_pipelining_per_worker,
                    self_element_spec = kw_element_spec a,
                    self_target_workers = target_workers a \<rparr>;
           compat_kwargs =
             (case data_transfer_protocol a of None \<Rightarrow> []
              | Some d \<Rightarrow> [(''data_transfer_protocol'', d)])
             @ (if forward_compatible e 2021 7 12 \<or> target_workers a \<noteq> ''AUTO''
                then [(''target_workers'', target_workers a)] else []);
           variant_tensor = None
       in
       bind (read_local ''variant_tensor'' variant_tensor) (\<lambda>v.
       bind (DatasetSource_init e v) (\<lambda>_.
       bind (data_service_dataset_v2 e self task_refresh_interval_hint_ms compat_kwargs)
            (\<lambda>variant_tensor. Inr (DataServiceDatasetV2 self))))))))))))))"

text \<open>
  The values \<^verbatim>\<open>__init__\<close> passes to \<^verbatim>\<open>ops.convert_to_tensor\<close> at lines 154-179, in order,
  with the requested dtype.
\<close>

definition conversions :: "env \<Rightarrow> reader_args \<Rightarrow> (tfval \<times> dtype) list" where
  "conversions e a =
     [(Py (PyInt (kw_dataset_id a)), DT_INT64),
      (Py (kw_processing_mode a), DT_STRING),
      (Py (kw_address a), DT_STRING),
      (Py (kw_protocol a), DT_STRING),
      (if job_name a = Py PyNone then Py (PyStr []) else job_name a, DT_STRING),
      (Py (PyInt (case consumer_index a of None \<Rightarrow> - 1 | Some i \<Rightarrow> i)), DT_INT64),
      (Py (PyInt (case num_consumers a of None \<Rightarrow> - 1 | Some n \<Rightarrow> n)), DT_INT64),
      (Py (PyInt (case max_outstanding_requests a of None \<Rightarrow> AUTOTUNE e | Some m \<Rightarrow> m)),
       DT_INT64),
      (Py (PyInt (max_request_pipelining_per_worker a)), DT_INT64)]"

text \<open>
  \<^verbatim>\<open>_DataServiceDatasetV1.__init__\<close> (lines 213-234) names its last parameter
  \<^verbatim>\<open>target_worker\<close>. It is only ever called with the keyword \<^verbatim>\<open>target_workers\<close>
  (line 831), which it does not accept: the call raises \<^verbatim>\<open>TypeError\<close> before the body runs.
\<close>

definition DataServiceDatasetV1_init :: "env \<Rightarrow> reader_args \<Rightarrow> error + dataset" where
  "DataServiceDatasetV1_init e a =
     Inl (TypeError (''__init__() got an unexpected keyword argument ''
                     @ [CHR 0x27] @ ''target_workers'' @ [CHR 0x27]))"

text \<open>The module-level choice of \<^verbatim>\<open>_DataServiceDataset\<close> (lines 237-240).\<close>

definition DataServiceDataset :: "env \<Rightarrow> reader_args \<Rightarrow> error + dataset" where
  "DataServiceDataset e =
     (if tf2_enabled e then DataServiceDatasetV2_init e else DataServiceDatasetV1_init e)"

section \<open>Service strings\<close>

text \<open>
  \<^verbatim>\<open>s.split(sep)\<close> for a non-empty separator: the string is scanned from the left, cut at
  each occurrence of the separator, and the scan resumes after it. Python raises
  \<^verbatim>\<open>ValueError\<close> for an empty separator.
\<close>

function split_at :: "string \<Rightarrow> string \<Rightarrow> string list" where
  "split_at sep [] = [[]]"
| "split_at sep (c # cs) =
     (if sep \<noteq> [] \<and> prefix sep (c # cs)
      then [] # split_at sep (drop (length sep) (c # cs))
      else (case split_at sep cs of
              [] \<Rightarrow> [[c]]
            | p # ps \<Rightarrow> (c # p) # ps))"
  by pat_completeness auto
termination
  by (relation "measure (\<lambda>(sep, s). length s)") (auto simp: Suc_diff_le)

definition str_split :: "string \<Rightarrow> string \<Rightarrow> error + string list" where
  "str_split s sep =
     (if sep = [] then Inl (ValueError [PyStr ''empty separator''])
      else Inr (split_at sep s))"

text \<open>
  The number of positions of a string at which a separator occurs; this is what
  ``the string contains the separator \<open>n\<close> times'' means below.
\<close>

fun occurrences :: "string \<Rightarrow> string \<Rightarrow> nat" where
  "occurrences sep [] = 0"
| "occurrences sep (c # cs) = (if prefix sep (c # cs) then 1 else 0) + occurrences sep cs"

text \<open>\<^verbatim>\<open>_parse_service\<close> (lines 243-269).\<close>

definition parse_service :: "env \<Rightarrow> pyval \<Rightarrow> error + (string \<times> string)" where
  "parse_service e service =
     (case service of
        PyStr s \<Rightarrow>
          if s = [] then Inl (ValueError [PyStr ''service must not be empty''])
          else bind (str_split s ''://'') (\<lambda>parts.
            if length parts = 2 then Inr (parts ! 0, parts ! 1)
            else if length parts = 1 then Inr (TF_DATA_DefaultProtocol e, parts ! 0)
            else Inl (ValueError [PyStr (''malformed service string has multiple ''
                        @ [CHR 0x27] @ ''://'' @ [CHR 0x27] @ '': '' @ s)]))
      | _ \<Rightarrow>
          Inl (ValueError [PyStr (''service must be a string, but service was of type ''
                 @ py_type_str service @ ''. service='' @ py_str service)]))"

text \<open>\<^verbatim>\<open>protocol, address = service\<close> for a tuple: it must have two elements.\<close>

definition unpack2 :: "pyval list \<Rightarrow> error + (pyval \<times> pyval)" where
  "unpack2 vs =
     (case vs of
        [p, a] \<Rightarrow> Inr (p, a)
      | _ \<Rightarrow>
          if length vs < 2
          then Inl (ValueError [PyStr (''not enough values to unpack (expected 2, got ''
                      @ decimal (int (length vs)) @ '')'')])
          else Inl (ValueError [PyStr ''too many values to unpack (expected 2)'']))"

section \<open>Registering and reading a dataset\<close>

definition COMPRESSION_AUTO :: pyval where
  "COMPRESSION_AUTO = PyStr ''AUTO''"

definition COMPRESSION_NONE :: pyval where
  "COMPRESSION_NONE = PyNone"

text \<open>
  Registration sends the dataset to the dispatcher. The requests sent so far are kept
  in a log that the functions take and return, so that what was registered can be
  observed; \<open>register_dataset_op\<close> gives the dispatcher's answer, the dataset id.

  \<^verbatim>\<open>_register_dataset\<close> (lines 616-670). A leading underscore of the source is written
  as the prefix \<open>internal_\<close> where the name without it is also a function of the file.
\<close>

definition internal_register_dataset ::
  "env \<Rightarrow> service_arg \<Rightarrow> dataset \<Rightarrow> pyval \<Rightarrow> registration list
     \<Rightarrow> (error + int) \<times> registration list" where
  "internal_register_dataset e service dataset compression log =
     (let valid_compressions = [COMPRESSION_AUTO, COMPRESSION_NONE] in
      if compression \<notin> set valid_compressions
      then (Inl (ValueError [PyStr (''Invalid compression argument: '' @ py_str compression
                   @ ''. Must be one of '' @ py_str_list valid_compressions)]), log)
      else
        case (case service of
                ServiceTuple vs \<Rightarrow> unpack2 vs
              | ServiceVal v \<Rightarrow> bind (parse_service e v) (\<lambda>(pr, ad). Inr (PyStr pr, PyStr ad))) of
          Inl err \<Rightarrow> (Inl err, log)
        | Inr (protocol, address) \<Rightarrow>
            let external_state_policy =
                  experimental_external_state_policy (dataset_options e dataset);
                external_state_policy =
                  (case external_state_policy of None \<Rightarrow> WARN | Some p \<Rightarrow> p);
                dataset =
                  (if compression = COMPRESSION_AUTO
                   then MapDataset dataset compress (AUTOTUNE e)
                   else MapDataset dataset pass_through (AUTOTUNE e));
                dataset = PrefetchDataset dataset (AUTOTUNE e);
                dataset = DebugOptionsDataset dataset;
                request = \<lparr> reg_dataset = dataset, reg_address = address,
                            reg_protocol = protocol,
                            reg_external_state_policy = external_state_policy \<rparr>
            in (register_dataset_op e request, log @ [request]))"

text \<open>\<^verbatim>\<open>register_dataset\<close> (lines 673-715).\<close>

definition register_dataset ::
  "env \<Rightarrow> service_arg \<Rightarrow> dataset \<Rightarrow> registration list \<Rightarrow> (error + int) \<times> registration list" where
  "register_dataset e service dataset log =
     internal_register_dataset e service dataset (PyStr ''AUTO'') log"

text \<open>
  \<^verbatim>\<open>_from_dataset_id\<close> (lines 718-842). \<^verbatim>\<open>_DataServiceDataset\<close> is a name of the module,
  bound when the module is loaded (lines 237-240) and looked up when the function runs;
  the class it is bound to is the parameter \<open>cls\<close>.
\<close>

definition internal_from_dataset_id ::
  "env \<Rightarrow> (reader_args \<Rightarrow> error + dataset) \<Rightarrow> pyval \<Rightarrow> service_arg \<Rightarrow> int
     \<Rightarrow> element_spec option \<Rightarrow> job_params \<Rightarrow> pyval \<Rightarrow> error + dataset" where
  "internal_from_dataset_id e cls processing_mode service dataset_id element_spec p compression =
     bind (validate processing_mode) (\<lambda>_.
     let valid_compressions = [COMPRESSION_AUTO, COMPRESSION_NONE] in
     if compression \<notin> set valid_compressions
     then Inl (ValueError [PyStr (''Invalid compression argument: '' @ py_str compression
                  @ ''. Must be one of '' @ py_str_list valid_compressions)])
     else if job_name p \<noteq> Py PyNone
             \<and> \<not> isinstance_str (job_name p) \<and> \<not> isinstance_Tensor (job_name p)
     then Inl (ValueError [PyStr (''job_name must be a string or Tensor, but job_name was of type ''
                  @ tf_type_str e (job_name p) @ ''. job_name='' @ tf_str e (job_name p))])
     else
       case element_spec of
         None \<Rightarrow> Inl (ValueError [PyStr ''element_spec must not be None''])
       | Some element_spec \<Rightarrow>
     bind (case service of
             ServiceTuple vs \<Rightarrow> unpack2 vs
           | ServiceVal v \<Rightarrow> bind (parse_service e v) (\<lambda>(pr, ad). Inr (PyStr pr, PyStr ad)))
          (\<lambda>(protocol, address).
     let data_service_element_spec =
           (if compression = COMPRESSION_AUTO then TensorSpec [] DT_VARIANT else element_spec)
     in
     bind (cls \<lparr> job_name = job_name p,
                 consumer_index = consumer_index p,
                 num_consumers = num_consumers p,
                 max_outstanding_requests = max_outstanding_requests p,
                 max_request_pipelining_per_worker = max_request_pipelining_per_worker p,
                 task_refresh_interval_hint_ms = task_refresh_interval_hint_ms p,
                 data_transfer_protocol = data_transfer_protocol p,
                 target_workers = target_workers p,
                 kw_dataset_id = dataset_id,
                 kw_processing_mode = processing_mode,
                 kw_address = address,
                 kw_element_spec = data_service_element_spec,
                 kw_protocol = protocol \<rparr>)
          (\<lambda>dataset.
     let dataset =
           (if compression = COMPRESSION_AUTO
            then MapDataset dataset (uncompress element_spec) (AUTOTUNE e)
            else dataset);
         dataset =
           (if job_name p \<noteq> Py PyNone
            then OptionsDataset dataset ((Options e)\<lparr> auto_shard_policy := OFF \<rparr>)
            else dataset)
     in Inr dataset)))"

text \<open>The keyword arguments of the call of lines 818-831, for stating what the class receives.\<close>

definition reader_call ::
  "pyval \<Rightarrow> pyval \<Rightarrow> pyval \<Rightarrow> int \<Rightarrow> element_spec \<Rightarrow> job_params \<Rightarrow> reader_args" where
  "reader_call processing_mode protocol address dataset_id spec p =
     \<lparr> job_name = job_name p,
       consumer_index = consumer_index p,
       num_consumers = num_consumers p,
       max_outstanding_requests = max_outstanding_requests p,
       max_request_pipelining_per_worker = max_request_pipelining_per_worker p,
       task_refresh_interval_hint_ms = task_refresh_interval_hint_ms p,
       data_transfer_protocol = data_transfer_protocol p,
       target_workers = target_workers p,
       kw_dataset_id = dataset_id,
       kw_processing_mode = processing_mode,
       kw_address = address,
       kw_element_spec = spec,
       kw_protocol = protocol \<rparr>"

text \<open>
  The job name \<^verbatim>\<open>from_dataset_id\<close> passes on (lines 951-953). After \<^verbatim>\<open>_check_job_name\<close>
  has returned, a job name that is not \<^verbatim>\<open>None\<close> is a string, the only case in which
  the name is rewritten.
\<close>

definition effective_job_name :: "int \<Rightarrow> tfval \<Rightarrow> tfval" where
  "effective_job_name dataset_id jn =
     (case jn of
        Py (PyStr s) \<Rightarrow>
          Tn (StringTensor (string_join [''dataset_id='', as_string dataset_id, s] ''/''))
      | _ \<Rightarrow> jn)"

text \<open>
  \<^verbatim>\<open>from_dataset_id\<close> (lines 845-966). It has no \<^verbatim>\<open>task_refresh_interval_hint_ms\<close> and no
  \<^verbatim>\<open>compression\<close> parameter, so \<^verbatim>\<open>_from_dataset_id\<close> runs with its defaults for them,
  \<^verbatim>\<open>None\<close> and \<^verbatim>\<open>"AUTO"\<close>.
\<close>

definition from_dataset_id ::
  "env \<Rightarrow> (reader_args \<Rightarrow> error + dataset) \<Rightarrow> pyval \<Rightarrow> service_arg \<Rightarrow> int
     \<Rightarrow> element_spec option \<Rightarrow> job_params \<Rightarrow> error + dataset" where
  "from_dataset_id e cls processing_mode service dataset_id element_spec p =
     bind (check_job_name e (job_name p)) (\<lambda>_.
     internal_from_dataset_id e cls processing_mode service dataset_id element_spec
       (p\<lparr> job_name := effective_job_name dataset_id (job_name p),
           task_refresh_interval_hint_ms := None \<rparr>)
       (PyStr ''AUTO''))"

section \<open>Distributing a dataset\<close>

text \<open>
  \<^verbatim>\<open>_distribute\<close> (lines 272-366) returns the closure \<^verbatim>\<open>_apply_fn\<close>; \<open>apply_fn\<close> is that
  closure with the variables it captures as parameters.
\<close>

definition apply_fn ::
  "env \<Rightarrow> (reader_args \<Rightarrow> error + dataset) \<Rightarrow> pyval \<Rightarrow> service_arg \<Rightarrow> job_params \<Rightarrow> pyval
     \<Rightarrow> dataset \<Rightarrow> registration list \<Rightarrow> (error + dataset) \<times> registration list" where
  "apply_fn e cls processing_mode service p compression dataset log =
     (case internal_register_dataset e service dataset compression log of
        (Inl err, log') \<Rightarrow> (Inl err, log')
      | (Inr dataset_id, log') \<Rightarrow>
          (internal_from_dataset_id e cls processing_mode service dataset_id
             (Some (dataset_element_spec e dataset)) p compression, log'))"

definition internal_distribute ::
  "env \<Rightarrow> (reader_args \<Rightarrow> error + dataset) \<Rightarrow> pyval \<Rightarrow> service_arg \<Rightarrow> job_params \<Rightarrow> pyval
     \<Rightarrow> error + (dataset \<Rightarrow> registration list \<Rightarrow> (error + dataset) \<times> registration list)" where
  "internal_distribute e cls processing_mode service p compression =
     bind (validate processing_mode) (\<lambda>_.
     let valid_compressions = [COMPRESSION_AUTO, COMPRESSION_NONE] in
     if compression \<notin> set valid_compressions
     then Inl (ValueError [PyStr (''Invalid compression argument: '' @ py_str compression
                  @ ''. Must be one of '' @ py_str_list valid_compressions)])
     else
       let compression =
             (if compression = COMPRESSION_AUTO \<and> data_transfer_protocol p \<noteq> None
              then COMPRESSION_NONE else compression)
       in Inr (apply_fn e cls processing_mode service p compression))"

text \<open>\<^verbatim>\<open>distribute\<close> (lines 369-613); it has no \<^verbatim>\<open>task_refresh_interval_hint_ms\<close> parameter.\<close>

definition distribute ::
  "env \<Rightarrow> (reader_args \<Rightarrow> error + dataset) \<Rightarrow> pyval \<Rightarrow> service_arg \<Rightarrow> job_params \<Rightarrow> pyval
     \<Rightarrow> error + (dataset \<Rightarrow> registration list \<Rightarrow> (error + dataset) \<times> registration list)" where
  "distribute e cls processing_mode service p compression =
     bind (check_job_name e (job_name p)) (\<lambda>_.
     internal_distribute e cls processing_mode service
       (p\<lparr> task_refresh_interval_hint_ms := None \<rparr>) compression)"

section \<open>Example values\<close>

text \<open>
  A concrete environment and concrete arguments, on which the functions can be evaluated.
\<close>

definition example_env :: env where
  "example_env =
     \<lparr> TF_DATA_DefaultProtocol = ''grpc'',
       AUTOTUNE = - 1,
       forward_compatible = (\<lambda>y m d. True),
       tf2_enabled = True,
       convert_to_tensor = (\<lambda>v dt. case v of
            Py (PyInt i) \<Rightarrow> Inr (Int64Tensor i)
          | Py (PyStr s) \<Rightarrow> Inr (StringTensor s)
          | Py PyNone \<Rightarrow> Inl (TypeError ''None cannot be converted to a tensor'')
          | Tn t \<Rightarrow> Inr t),
       tensor_str = (\<lambda>t. ''tf.Tensor''),
       tensor_type_str = (\<lambda>t. ''EagerTensor''),
       Options = \<lparr> auto_shard_policy = AUTO, experimental_external_state_policy = None \<rparr>,
       dataset_options =
         (\<lambda>d. \<lparr> auto_shard_policy = AUTO, experimental_external_state_policy = None \<rparr>),
       dataset_element_spec = (\<lambda>d. TensorSpec [] DT_INT64),
       DatasetSource_init = (\<lambda>t. Inr ()),
       data_service_dataset_v2 = (\<lambda>s t k. Inr (Int64Tensor 0)),
       register_dataset_op = (\<lambda>r. Inr 7) \<rparr>"

definition example_params :: job_params where
  "example_params =
     \<lparr> job_name = Py (PyStr ''train''),
       consumer_index = None,
       num_consumers = None,
       max_outstanding_requests = None,
       max_request_pipelining_per_worker = 1,
       task_refresh_interval_hint_ms = None,
       data_transfer_protocol = None,
       target_workers = ''AUTO'' \<rparr>"

definition example_args :: reader_args where
  "example_args =
     \<lparr> job_name = Py (PyStr ''train''),
       consumer_index = None,
       num_consumers = None,
       max_outstanding_requests = None,
       max_request_pipelining_per_worker = 1,
       task_refresh_interval_hint_ms = None,
       data_transfer_protocol = None,
       target_workers = ''AUTO'',
       kw_dataset_id = 7,
       kw_processing_mode = PyStr ''parallel_epochs'',
       kw_address = PyStr ''host:5000'',
       kw_element_spec = TensorSpec [] DT_VARIANT,
       kw_protocol = PyStr ''grpc'' \<rparr>"

section \<open>Properties\<close>

subsection \<open>Sequencing\<close>

lemma bind_Inl [simp]: "bind (Inl e) f = Inl e"
  by (simp add: bind_def)

lemma bind_Inr [simp]: "bind (Inr x) f = f x"
  by (simp add: bind_def)

lemma bind_eq_Inr_iff: "bind m f = Inr y \<longleftrightarrow> (\<exists>x. m = Inr x \<and> f x = Inr y)"
  by (cases m) simp_all

subsection \<open>Processing modes\<close>

lemma sublist_of_suffix: "sublist xs ys \<Longrightarrow> sublist xs (zs @ ys)"
  unfolding sublist_def by (metis append.assoc)

lemma py_str_list_valid_modes:
  "py_str_list [PyStr PARALLEL_EPOCHS, PyStr DISTRIBUTED_EPOCH] =
     ''['' @ [CHR 0x27] @ ''parallel_epochs'' @ [CHR 0x27] @ '', ''
       @ [CHR 0x27] @ ''distributed_epoch'' @ [CHR 0x27] @ '']''"
  by (simp add: py_str_list_def PARALLEL_EPOCHS_def DISTRIBUTED_EPOCH_def)

lemma valid_modes_lists_parallel:
  "sublist ''parallel_epochs'' (py_str_list [PyStr PARALLEL_EPOCHS, PyStr DISTRIBUTED_EPOCH])"
  unfolding py_str_list_valid_modes
  using sublist_appendI [of "''parallel_epochs''" "''['' @ [CHR 0x27]"] by simp

lemma valid_modes_lists_distributed:
  "sublist ''distributed_epoch'' (py_str_list [PyStr PARALLEL_EPOCHS, PyStr DISTRIBUTED_EPOCH])"
  unfolding py_str_list_valid_modes
  using sublist_appendI [of "''distributed_epoch''"
          "''['' @ [CHR 0x27] @ ''parallel_epochs'' @ [CHR 0x27] @ '', '' @ [CHR 0x27]"]
  by simp

text \<open>
  C7. \<^verbatim>\<open>ProcessingMode.validate\<close> returns normally exactly on the two strings
  \<^verbatim>\<open>"parallel_epochs"\<close> and \<^verbatim>\<open>"distributed_epoch"\<close>; on every other value it raises a
  \<^verbatim>\<open>ValueError\<close> whose message contains both valid mode names.
\<close>

theorem validate_accepts_exactly_two_modes:
  "(validate mode = Inr () \<longleftrightarrow>
      mode = PyStr ''parallel_epochs'' \<or> mode = PyStr ''distributed_epoch'')
   \<and> (mode \<noteq> PyStr ''parallel_epochs'' \<and> mode \<noteq> PyStr ''distributed_epoch'' \<longrightarrow>
        (\<exists>msg. validate mode = Inl (ValueError [PyStr msg])
            \<and> sublist ''parallel_epochs'' msg \<and> sublist ''distributed_epoch'' msg))"
proof -
  let ?tail = "py_str_list [PyStr PARALLEL_EPOCHS, PyStr DISTRIBUTED_EPOCH]"
  have accept: "validate mode = Inr () \<longleftrightarrow>
      mode = PyStr ''parallel_epochs'' \<or> mode = PyStr ''distributed_epoch''"
    by (simp add: validate_def Let_def PARALLEL_EPOCHS_def DISTRIBUTED_EPOCH_def)
  have reject: "\<exists>msg. validate mode = Inl (ValueError [PyStr msg])
            \<and> sublist ''parallel_epochs'' msg \<and> sublist ''distributed_epoch'' msg"
    if "mode \<noteq> PyStr ''parallel_epochs''" "mode \<noteq> PyStr ''distributed_epoch''"
  proof -
    let ?head = "py_str mode @ '' is not a valid processing mode. Valid modes: ''"
    have "validate mode = Inl (ValueError [PyStr (?head @ ?tail)])"
      using that by (simp add: validate_def Let_def PARALLEL_EPOCHS_def DISTRIBUTED_EPOCH_def)
    moreover have "sublist ''parallel_epochs'' (?head @ ?tail)"
      by (rule sublist_of_suffix [OF valid_modes_lists_parallel])
    moreover have "sublist ''distributed_epoch'' (?head @ ?tail)"
      by (rule sublist_of_suffix [OF valid_modes_lists_distributed])
    ultimately show ?thesis by blast
  qed
  from accept reject show ?thesis by blast
qed

theorem validate_accepts_exactly_two_modes_witness:
  "validate (PyStr ''parallel_epochs'') = Inr ()
   \<and> validate (PyStr ''distributed_epoch'') = Inr ()
   \<and> (\<exists>msg. validate (PyStr ''round_robin'') = Inl (ValueError [PyStr msg])
          \<and> sublist ''parallel_epochs'' msg \<and> sublist ''distributed_epoch'' msg)
   \<and> (\<exists>msg. validate PyNone = Inl (ValueError [PyStr msg])
          \<and> sublist ''parallel_epochs'' msg \<and> sublist ''distributed_epoch'' msg)"
proof -
  have a: "validate (PyStr ''parallel_epochs'') = Inr ()"
    using validate_accepts_exactly_two_modes [of "PyStr ''parallel_epochs''"] by simp
  have b: "validate (PyStr ''distributed_epoch'') = Inr ()"
    using validate_accepts_exactly_two_modes [of "PyStr ''distributed_epoch''"] by simp
  have c: "\<exists>msg. validate (PyStr ''round_robin'') = Inl (ValueError [PyStr msg])
          \<and> sublist ''parallel_epochs'' msg \<and> sublist ''distributed_epoch'' msg"
    using validate_accepts_exactly_two_modes [of "PyStr ''round_robin''"] by simp
  have d: "\<exists>msg. validate PyNone = Inl (ValueError [PyStr msg])
          \<and> sublist ''parallel_epochs'' msg \<and> sublist ''distributed_epoch'' msg"
    using validate_accepts_exactly_two_modes [of PyNone] by simp
  from a b c d show ?thesis by blast
qed

subsection \<open>Service strings\<close>

lemma split_at_not_Nil [simp]: "split_at sep s \<noteq> []"
  by (induction sep s rule: split_at.induct) (auto split: list.splits)

lemma split_at_prefix:
  "sep \<noteq> [] \<Longrightarrow> prefix sep (c # cs) \<Longrightarrow>
     split_at sep (c # cs) = [] # split_at sep (drop (length sep) (c # cs))"
  by simp

lemma split_at_no_prefix:
  "\<not> prefix sep (c # cs) \<Longrightarrow> split_at sep cs = p # ps \<Longrightarrow>
     split_at sep (c # cs) = (c # p) # ps"
  by simp

lemma join_Cons_Cons: "join sep ((c # p) # ps) = c # join sep (p # ps)"
  by (cases ps) simp_all

lemma join_Nil_Cons: "ps \<noteq> [] \<Longrightarrow> join sep ([] # ps) = sep @ join sep ps"
  by (cases ps) simp_all

lemma join_split_at: "sep \<noteq> [] \<Longrightarrow> join sep (split_at sep s) = s"
proof (induction sep s rule: split_at.induct)
  case (1 sep)
  then show ?case by simp
next
  case (2 sep c cs)
  show ?case
  proof (cases "prefix sep (c # cs)")
    case True
    then have eq: "c # cs = sep @ drop (length sep) (c # cs)"
      by (metis append_take_drop_id prefix_def append_eq_conv_conj)
    have "join sep (split_at sep (c # cs)) = sep @ join sep (split_at sep (drop (length sep) (c # cs)))"
      using True 2(3) by (simp add: join_Nil_Cons)
    also have "\<dots> = sep @ drop (length sep) (c # cs)"
      using 2(1) True 2(3) by simp
    finally show ?thesis using eq by simp
  next
    case False
    obtain p ps where ps: "split_at sep cs = p # ps"
      by (cases "split_at sep cs") simp_all
    have "join sep (split_at sep (c # cs)) = c # join sep (p # ps)"
      using False ps by (simp add: join_Cons_Cons)
    also have "\<dots> = c # cs"
      using 2(2) False 2(3) ps by simp
    finally show ?thesis .
  qed
qed

lemma occurrences_after_separator:
  "occurrences ''://'' (''://'' @ rest) = Suc (occurrences ''://'' rest)"
  by simp

lemma length_split_at_service:
  "length (split_at ''://'' s) = Suc (occurrences ''://'' s)"
proof (induction "''://''" s rule: split_at.induct)
  case 1
  then show ?case by simp
next
  case (2 c cs)
  show ?case
  proof (cases "prefix ''://'' (c # cs)")
    case True
    then obtain rest where rest: "c # cs = ''://'' @ rest"
      by (auto simp: prefix_def)
    then have d: "drop (length ''://'') (c # cs) = rest" by simp
    have ne: "''://'' \<noteq> []" by simp
    have "length (split_at ''://'' (c # cs)) = Suc (length (split_at ''://'' rest))"
      unfolding split_at_prefix [OF ne True] d by simp
    also have "\<dots> = Suc (Suc (occurrences ''://'' rest))"
      using 2(1) [OF conjI [OF ne True]] unfolding d by simp
    also have "\<dots> = Suc (occurrences ''://'' (c # cs))"
      unfolding rest occurrences_after_separator ..
    finally show ?thesis .
  next
    case False
    obtain p ps where ps: "split_at ''://'' cs = p # ps"
      by (cases "split_at ''://'' cs") simp_all
    have "length (split_at ''://'' (c # cs)) = length (split_at ''://'' cs)"
      unfolding split_at_no_prefix [OF False ps] ps by simp
    moreover have "length (split_at ''://'' cs) = Suc (occurrences ''://'' cs)"
      using 2(2) False by blast
    moreover have "occurrences ''://'' (c # cs) = occurrences ''://'' cs"
      using False by (simp only: occurrences.simps if_False add_0)
    ultimately show ?thesis by simp
  qed
qed


lemma parse_service_parts:
  assumes "s \<noteq> []"
  shows "parse_service e (PyStr s) =
     (let parts = split_at ''://'' s in
      if length parts = 2 then Inr (parts ! 0, parts ! 1)
      else if length parts = 1 then Inr (TF_DATA_DefaultProtocol e, parts ! 0)
      else Inl (ValueError [PyStr (''malformed service string has multiple ''
                  @ [CHR 0x27] @ ''://'' @ [CHR 0x27] @ '': '' @ s)]))"
  using assms by (simp add: parse_service_def str_split_def Let_def)

text \<open>
  C2. For a service string \<open>s\<close>: if \<^verbatim>\<open>"://"\<close> occurs in it exactly once, \<^verbatim>\<open>_parse_service\<close>
  returns the protocol and the address on the two sides of that occurrence; if it does
  not occur and \<open>s\<close> is not empty, it returns the default protocol and \<open>s\<close>; if it occurs
  more than once, it raises the malformed-string error; on the empty string and on a
  value that is not a string it raises a \<^verbatim>\<open>ValueError\<close>.
\<close>

theorem parse_service_by_occurrences:
  "(occurrences ''://'' s = 1 \<longrightarrow>
      (\<exists>pr ad. s = pr @ ''://'' @ ad \<and> parse_service e (PyStr s) = Inr (pr, ad)))
   \<and> (s \<noteq> [] \<and> occurrences ''://'' s = 0 \<longrightarrow>
        parse_service e (PyStr s) = Inr (TF_DATA_DefaultProtocol e, s))
   \<and> (1 < occurrences ''://'' s \<longrightarrow>
        parse_service e (PyStr s) =
          Inl (ValueError [PyStr (''malformed service string has multiple ''
                 @ [CHR 0x27] @ ''://'' @ [CHR 0x27] @ '': '' @ s)]))
   \<and> parse_service e (PyStr []) = Inl (ValueError [PyStr ''service must not be empty''])
   \<and> ((\<forall>t. v \<noteq> PyStr t) \<longrightarrow> (\<exists>msg. parse_service e v = Inl (ValueError [PyStr msg])))"
proof (intro conjI impI)
  assume one: "occurrences ''://'' s = 1"
  then have ne: "s \<noteq> []" by auto
  have len: "length (split_at ''://'' s) = 2"
    using one by (simp add: length_split_at_service)
  then obtain pr ad where parts: "split_at ''://'' s = [pr, ad]"
    by (auto simp: length_Suc_conv numeral_2_eq_2)
  have "join ''://'' (split_at ''://'' s) = s"
    by (rule join_split_at) simp
  then have "s = pr @ ''://'' @ ad"
    unfolding parts by simp
  moreover have "parse_service e (PyStr s) = Inr (pr, ad)"
    unfolding parse_service_parts [OF ne] parts by simp
  ultimately show "\<exists>pr ad. s = pr @ ''://'' @ ad \<and> parse_service e (PyStr s) = Inr (pr, ad)"
    by blast
next
  assume zero: "s \<noteq> [] \<and> occurrences ''://'' s = 0"
  then have len: "length (split_at ''://'' s) = 1"
    by (simp add: length_split_at_service)
  then obtain x where parts: "split_at ''://'' s = [x]"
    by (auto simp: length_Suc_conv)
  have "join ''://'' (split_at ''://'' s) = s"
    by (rule join_split_at) simp
  then have "x = s" unfolding parts by simp
  then show "parse_service e (PyStr s) = Inr (TF_DATA_DefaultProtocol e, s)"
    using zero unfolding parse_service_parts [OF conjunct1 [OF zero]] parts by simp
next
  assume many: "1 < occurrences ''://'' s"
  then have ne: "s \<noteq> []" by auto
  have "length (split_at ''://'' s) \<noteq> 2" "length (split_at ''://'' s) \<noteq> 1"
    using many by (simp_all add: length_split_at_service)
  then show "parse_service e (PyStr s) =
          Inl (ValueError [PyStr (''malformed service string has multiple ''
                 @ [CHR 0x27] @ ''://'' @ [CHR 0x27] @ '': '' @ s)])"
    unfolding parse_service_parts [OF ne] by (simp add: Let_def)
next
  show "parse_service e (PyStr []) = Inl (ValueError [PyStr ''service must not be empty''])"
    by (simp add: parse_service_def)
next
  assume "\<forall>t. v \<noteq> PyStr t"
  then show "\<exists>msg. parse_service e v = Inl (ValueError [PyStr msg])"
    by (cases v) (simp_all add: parse_service_def)
qed

theorem parse_service_by_occurrences_witness:
  "occurrences ''://'' ''grpc://host:5000'' = 1
   \<and> (\<exists>pr ad. ''grpc://host:5000'' = pr @ ''://'' @ ad
          \<and> parse_service example_env (PyStr ''grpc://host:5000'') = Inr (pr, ad))
   \<and> occurrences ''://'' ''host:5000'' = 0
   \<and> parse_service example_env (PyStr ''host:5000'')
         = Inr (TF_DATA_DefaultProtocol example_env, ''host:5000'')
   \<and> 1 < occurrences ''://'' ''a://b://c''
   \<and> parse_service example_env (PyStr ''a://b://c'')
         = Inl (ValueError [PyStr (''malformed service string has multiple ''
                 @ [CHR 0x27] @ ''://'' @ [CHR 0x27] @ '': '' @ ''a://b://c'')])
   \<and> (\<exists>msg. parse_service example_env (PyInt 5000) = Inl (ValueError [PyStr msg]))"
proof -
  have one: "occurrences ''://'' ''grpc://host:5000'' = 1" by simp
  have zero: "''host:5000'' \<noteq> [] \<and> occurrences ''://'' ''host:5000'' = 0" by simp
  have many: "1 < occurrences ''://'' ''a://b://c''" by simp
  have other: "\<forall>t. PyInt 5000 \<noteq> PyStr t" by simp
  have a: "\<exists>pr ad. ''grpc://host:5000'' = pr @ ''://'' @ ad
          \<and> parse_service example_env (PyStr ''grpc://host:5000'') = Inr (pr, ad)"
    using parse_service_by_occurrences [of "''grpc://host:5000''" example_env PyNone] one
    by blast
  have b: "parse_service example_env (PyStr ''host:5000'')
         = Inr (TF_DATA_DefaultProtocol example_env, ''host:5000'')"
    using parse_service_by_occurrences [of "''host:5000''" example_env PyNone] zero
    by blast
  have c: "parse_service example_env (PyStr ''a://b://c'')
         = Inl (ValueError [PyStr (''malformed service string has multiple ''
                 @ [CHR 0x27] @ ''://'' @ [CHR 0x27] @ '': '' @ ''a://b://c'')])"
    using parse_service_by_occurrences [of "''a://b://c''" example_env PyNone] many
    by blast
  have d: "\<exists>msg. parse_service example_env (PyInt 5000) = Inl (ValueError [PyStr msg])"
    using parse_service_by_occurrences [of "''x''" example_env "PyInt 5000"] other
    by blast
  from one a zero b many c d show ?thesis by blast
qed

subsection \<open>Derived job names\<close>

lemma digit_char_inj:
  assumes "a < 10" "b < 10" "digit_char a = digit_char b"
  shows "a = b"
proof -
  have d: "distinct ''0123456789''" by simp
  have "''0123456789'' ! a = ''0123456789'' ! b"
    using assms by (simp add: digit_char_def)
  then show ?thesis
    using assms(1,2) nth_eq_iff_index_eq [OF d, of a b] by simp
qed

lemma digit_char_in_digits: "digit_char d \<in> set ''0123456789''"
proof -
  have "d mod 10 < length ''0123456789''" by simp
  then show ?thesis unfolding digit_char_def by (rule nth_mem)
qed

lemma digits_not_Nil: "digits n \<noteq> []"
  by (subst digits.simps) simp

lemma set_digits: "set (digits n) \<subseteq> set ''0123456789''"
proof (induction n rule: digits.induct)
  case (1 n)
  show ?case
  proof (cases "n < 10")
    case True
    then show ?thesis
      using digit_char_in_digits [of n] by (subst digits.simps) simp
  next
    case False
    then show ?thesis
      using 1 digit_char_in_digits [of "n mod 10"] by (subst digits.simps) simp
  qed
qed

lemma digits_inj: "digits n = digits m \<Longrightarrow> n = m"
proof (induction n arbitrary: m rule: digits.induct)
  case (1 n)
  note eq = \<open>digits n = digits m\<close>
  show ?case
  proof (cases "n < 10")
    case n: True
    show ?thesis
    proof (cases "m < 10")
      case True
      with n eq have "digit_char n = digit_char m"
        by (simp add: digits.simps [of n] digits.simps [of m])
      then show ?thesis using n True by (rule digit_char_inj [rotated 2])
    next
      case False
      with n eq have "[digit_char n] = digits (m div 10) @ [digit_char (m mod 10)]"
        by (simp add: digits.simps [of n] digits.simps [of m])
      then show ?thesis using digits_not_Nil [of "m div 10"] by simp
    qed
  next
    case n: False
    show ?thesis
    proof (cases "m < 10")
      case True
      with n eq have "digits (n div 10) @ [digit_char (n mod 10)] = [digit_char m]"
        by (simp add: digits.simps [of n] digits.simps [of m])
      then show ?thesis using digits_not_Nil [of "n div 10"] by simp
    next
      case False
      with n eq have "digits (n div 10) @ [digit_char (n mod 10)]
                      = digits (m div 10) @ [digit_char (m mod 10)]"
        by (simp add: digits.simps [of n] digits.simps [of m])
      then have a: "digits (n div 10) = digits (m div 10)"
        and b: "digit_char (n mod 10) = digit_char (m mod 10)" by simp_all
      from 1(1) [OF n a] have "n div 10 = m div 10" .
      moreover from b have "n mod 10 = m mod 10"
        by (intro digit_char_inj) simp_all
      ultimately show ?thesis by (metis div_mult_mod_eq)
    qed
  qed
qed

lemma decimal_inj: "decimal i = decimal j \<Longrightarrow> i = j"
proof -
  assume eq: "decimal i = decimal j"
  have nodash: "CHR ''-'' \<notin> set (digits n)" for n
    using set_digits [of n] by auto
  consider "i < 0" "j < 0" | "i < 0" "\<not> j < 0" | "\<not> i < 0" "j < 0" | "\<not> i < 0" "\<not> j < 0"
    by blast
  then show ?thesis
  proof cases
    case 1
    with eq have "digits (nat (- i)) = digits (nat (- j))" by (simp add: decimal_def)
    then have "nat (- i) = nat (- j)" by (rule digits_inj)
    with 1 show ?thesis by simp
  next
    case 2
    with eq have "CHR ''-'' # digits (nat (- i)) = digits (nat j)" by (simp add: decimal_def)
    then have "CHR ''-'' \<in> set (digits (nat j))" by (metis list.set_intros(1))
    with nodash show ?thesis by blast
  next
    case 3
    with eq have "digits (nat i) = CHR ''-'' # digits (nat (- j))" by (simp add: decimal_def)
    then have "CHR ''-'' \<in> set (digits (nat i))" by (metis list.set_intros(1))
    with nodash show ?thesis by blast
  next
    case 4
    with eq have "digits (nat i) = digits (nat j)" by (simp add: decimal_def)
    then have "nat i = nat j" by (rule digits_inj)
    with 4 show ?thesis by simp
  qed
qed

lemma decimal_no_slash: "CHR ''/'' \<notin> set (decimal i)"
  using set_digits [of "nat i"] set_digits [of "nat (- i)"] by (auto simp: decimal_def)

lemma cut_at_first_slash:
  assumes "CHR ''/'' \<notin> set xs" "CHR ''/'' \<notin> set ys"
      and "xs @ CHR ''/'' # us = ys @ CHR ''/'' # vs"
  shows "xs = ys \<and> us = vs"
proof -
  have tw: "takeWhile (\<lambda>c. c \<noteq> CHR ''/'') (zs @ CHR ''/'' # ws) = zs"
    if "CHR ''/'' \<notin> set zs" for zs ws
    using that by (induction zs) auto
  have "takeWhile (\<lambda>c. c \<noteq> CHR ''/'') (xs @ CHR ''/'' # us) = xs"
    using assms(1) by (rule tw)
  moreover have "takeWhile (\<lambda>c. c \<noteq> CHR ''/'') (ys @ CHR ''/'' # vs) = ys"
    using assms(2) by (rule tw)
  ultimately have "xs = ys" using assms(3) by simp
  then show ?thesis using assms(3) by simp
qed

lemma effective_job_name_str:
  "effective_job_name d (Py (PyStr j)) =
     Tn (StringTensor (''dataset_id=/'' @ decimal d @ ''/'' @ j))"
  by (simp add: effective_job_name_def string_join_def as_string_def)

lemma from_dataset_id_calls_class:
  assumes "validate processing_mode = Inr ()"
      and "job_name p = Py (PyStr j)" and "j \<noteq> []"
  shows "from_dataset_id e cls processing_mode service d (Some spec) p =
           bind (case service of
                   ServiceTuple vs \<Rightarrow> unpack2 vs
                 | ServiceVal v \<Rightarrow> bind (parse_service e v) (\<lambda>(pr, ad). Inr (PyStr pr, PyStr ad)))
             (\<lambda>(protocol, address).
                bind (cls (reader_call processing_mode protocol address d (TensorSpec [] DT_VARIANT)
                        (p\<lparr> job_name :=
                              Tn (StringTensor (''dataset_id=/'' @ decimal d @ ''/'' @ j)),
                            task_refresh_interval_hint_ms := None \<rparr>)))
                  (\<lambda>dataset. Inr (OptionsDataset
                                    (MapDataset dataset (uncompress spec) (AUTOTUNE e))
                                    ((Options e)\<lparr> auto_shard_policy := OFF \<rparr>))))"
  using assms
  by (simp add: from_dataset_id_def internal_from_dataset_id_def check_job_name_def
        effective_job_name_str reader_call_def Let_def
        COMPRESSION_AUTO_def COMPRESSION_NONE_def)

lemma derived_names_differ:
  assumes "d \<noteq> d'"
  shows "''dataset_id=/'' @ decimal d @ ''/'' @ j \<noteq> ''dataset_id=/'' @ decimal d' @ ''/'' @ j'"
proof
  assume "''dataset_id=/'' @ decimal d @ ''/'' @ j = ''dataset_id=/'' @ decimal d' @ ''/'' @ j'"
  then have "decimal d @ CHR ''/'' # j = decimal d' @ CHR ''/'' # j'" by simp
  then have "decimal d = decimal d'"
    using cut_at_first_slash [OF decimal_no_slash decimal_no_slash] by blast
  then show False using assms decimal_inj by blast
qed

text \<open>
  C4. For a valid processing mode and a non-empty job name \<open>j\<close>, \<^verbatim>\<open>from_dataset_id\<close> with
  dataset id \<open>d\<close> calls the reader class, whatever class that is, with the job name
  \<^verbatim>\<open>"dataset_id=/"\<close>, the decimal id, \<^verbatim>\<open>"/"\<close> and \<open>j\<close>: the name embeds both, the id first.
  For two different dataset ids the names passed are different, whatever the callers'
  job names are (in particular when they are the same).
\<close>

theorem from_dataset_id_job_name_collision_free:
  assumes "validate processing_mode = Inr ()"
      and "job_name p = Py (PyStr j)" and "j \<noteq> []"
      and "job_name p' = Py (PyStr j')" and "j' \<noteq> []"
      and "d \<noteq> d'"
  shows "\<exists>name name'.
           name = ''dataset_id=/'' @ decimal d @ ''/'' @ j
         \<and> name' = ''dataset_id=/'' @ decimal d' @ ''/'' @ j'
         \<and> name \<noteq> name'
         \<and> (\<forall>cls. from_dataset_id e cls processing_mode service d (Some spec) p =
               bind (case service of
                       ServiceTuple vs \<Rightarrow> unpack2 vs
                     | ServiceVal v \<Rightarrow>
                         bind (parse_service e v) (\<lambda>(pr, ad). Inr (PyStr pr, PyStr ad)))
                 (\<lambda>(protocol, address).
                    bind (cls (reader_call processing_mode protocol address d
                            (TensorSpec [] DT_VARIANT)
                            (p\<lparr> job_name := Tn (StringTensor name),
                                task_refresh_interval_hint_ms := None \<rparr>)))
                      (\<lambda>dataset. Inr (OptionsDataset
                                        (MapDataset dataset (uncompress spec) (AUTOTUNE e))
                                        ((Options e)\<lparr> auto_shard_policy := OFF \<rparr>)))))
         \<and> (\<forall>cls. from_dataset_id e cls processing_mode service d' (Some spec) p' =
               bind (case service of
                       ServiceTuple vs \<Rightarrow> unpack2 vs
                     | ServiceVal v \<Rightarrow>
                         bind (parse_service e v) (\<lambda>(pr, ad). Inr (PyStr pr, PyStr ad)))
                 (\<lambda>(protocol, address).
                    bind (cls (reader_call processing_mode protocol address d'
                            (TensorSpec [] DT_VARIANT)
                            (p'\<lparr> job_name := Tn (StringTensor name'),
                                 task_refresh_interval_hint_ms := None \<rparr>)))
                      (\<lambda>dataset. Inr (OptionsDataset
                                        (MapDataset dataset (uncompress spec) (AUTOTUNE e))
                                        ((Options e)\<lparr> auto_shard_policy := OFF \<rparr>)))))"
proof (intro exI conjI allI)
  show "''dataset_id=/'' @ decimal d @ ''/'' @ j = ''dataset_id=/'' @ decimal d @ ''/'' @ j" ..
  show "''dataset_id=/'' @ decimal d' @ ''/'' @ j' = ''dataset_id=/'' @ decimal d' @ ''/'' @ j'" ..
  show "''dataset_id=/'' @ decimal d @ ''/'' @ j \<noteq> ''dataset_id=/'' @ decimal d' @ ''/'' @ j'"
    by (rule derived_names_differ [OF assms(6)])
qed (rule from_dataset_id_calls_class [OF assms(1) assms(2) assms(3)]
          from_dataset_id_calls_class [OF assms(1) assms(4) assms(5)])+

lemma decimal_7: "decimal 7 = ''7''"
  by (simp add: decimal_def digit_char_def digits.simps [of 7])

lemma decimal_8: "decimal 8 = ''8''"
  by (simp add: decimal_def digit_char_def digits.simps [of 8])

theorem from_dataset_id_job_name_collision_free_witness:
  "validate (PyStr ''parallel_epochs'') = Inr ()
   \<and> job_name example_params = Py (PyStr ''train'')
   \<and> (7::int) \<noteq> 8
   \<and> ''dataset_id=/7/train'' \<noteq> ''dataset_id=/8/train''
   \<and> from_dataset_id example_env (DataServiceDataset example_env) (PyStr ''parallel_epochs'')
         (ServiceVal (PyStr ''grpc://host:5000'')) 7 (Some (TensorSpec [] DT_INT64)) example_params
       = bind (case ServiceVal (PyStr ''grpc://host:5000'') of
                 ServiceTuple vs \<Rightarrow> unpack2 vs
               | ServiceVal v \<Rightarrow>
                   bind (parse_service example_env v) (\<lambda>(pr, ad). Inr (PyStr pr, PyStr ad)))
           (\<lambda>(protocol, address).
              bind (DataServiceDataset example_env
                      (reader_call (PyStr ''parallel_epochs'') protocol address 7
                         (TensorSpec [] DT_VARIANT)
                         (example_params\<lparr> job_name := Tn (StringTensor ''dataset_id=/7/train''),
                                          task_refresh_interval_hint_ms := None \<rparr>)))
                (\<lambda>dataset. Inr (OptionsDataset
                                  (MapDataset dataset (uncompress (TensorSpec [] DT_INT64))
                                     (AUTOTUNE example_env))
                                  ((Options example_env)\<lparr> auto_shard_policy := OFF \<rparr>))))"
proof -
  have v: "validate (PyStr ''parallel_epochs'') = Inr ()"
    by (simp add: validate_def PARALLEL_EPOCHS_def)
  have j: "job_name example_params = Py (PyStr ''train'')"
    by (simp add: example_params_def)
  have ne: "''train'' \<noteq> []" by simp
  have d: "(7::int) \<noteq> 8" by simp
  from from_dataset_id_job_name_collision_free
         [OF v j ne j ne d, of example_env "ServiceVal (PyStr ''grpc://host:5000'')"
            "TensorSpec [] DT_INT64"]
  obtain name name' where
    n: "name = ''dataset_id=/'' @ decimal 7 @ ''/'' @ ''train''"
    and n': "name' = ''dataset_id=/'' @ decimal 8 @ ''/'' @ ''train''"
    and differ: "name \<noteq> name'"
    and call: "\<forall>cls. from_dataset_id example_env cls (PyStr ''parallel_epochs'')
         (ServiceVal (PyStr ''grpc://host:5000'')) 7 (Some (TensorSpec [] DT_INT64)) example_params
       = bind (case ServiceVal (PyStr ''grpc://host:5000'') of
                 ServiceTuple vs \<Rightarrow> unpack2 vs
               | ServiceVal v \<Rightarrow>
                   bind (parse_service example_env v) (\<lambda>(pr, ad). Inr (PyStr pr, PyStr ad)))
           (\<lambda>(protocol, address).
              bind (cls
                      (reader_call (PyStr ''parallel_epochs'') protocol address 7
                         (TensorSpec [] DT_VARIANT)
                         (example_params\<lparr> job_name := Tn (StringTensor name),
                                          task_refresh_interval_hint_ms := None \<rparr>)))
                (\<lambda>dataset. Inr (OptionsDataset
                                  (MapDataset dataset (uncompress (TensorSpec [] DT_INT64))
                                     (AUTOTUNE example_env))
                                  ((Options example_env)\<lparr> auto_shard_policy := OFF \<rparr>))))"
    by blast
  have n7: "name = ''dataset_id=/7/train''" using n by (simp add: decimal_7)
  have n8: "name' = ''dataset_id=/8/train''" using n' by (simp add: decimal_8)
  from differ have names: "''dataset_id=/7/train'' \<noteq> ''dataset_id=/8/train''"
    unfolding n7 n8 .
  from call [unfolded n7, THEN spec, of "DataServiceDataset example_env"] v j d names
  show ?thesis by (intro conjI)
qed

subsection \<open>Constructing the reader\<close>

lemma unbound_or_conversion_step:
  assumes "\<And>t. f t = Inl (UnboundLocalError ''variant_tensor'')
             \<or> (\<exists>v dt err. convert_to_tensor e v dt = Inl err \<and> f t = Inl err)"
  shows "bind (convert_to_tensor e v0 dt0) f = Inl (UnboundLocalError ''variant_tensor'')
         \<or> (\<exists>v dt err. convert_to_tensor e v dt = Inl err
                \<and> bind (convert_to_tensor e v0 dt0) f = Inl err)"
proof (cases "convert_to_tensor e v0 dt0")
  case (Inl err)
  then show ?thesis by auto
next
  case (Inr t)
  then show ?thesis using assms [of t] by simp
qed

lemma unbound_at_line_189:
  "bind (read_local ''variant_tensor'' None) f = Inl (UnboundLocalError ''variant_tensor'')
   \<or> (\<exists>v dt err. convert_to_tensor e v dt = Inl err
          \<and> bind (read_local ''variant_tensor'' None) f = Inl err)"
  by (simp add: read_local_def)

lemma init_after_checks:
  assumes "num_consumers a = None \<or> job_name a \<noteq> Py PyNone"
  shows "DataServiceDatasetV2_init e a = Inl (UnboundLocalError ''variant_tensor'')
         \<or> (\<exists>v dt err. convert_to_tensor e v dt = Inl err
                \<and> DataServiceDatasetV2_init e a = Inl err)"
proof -
  have c1: "\<not> (consumer_index a = None \<and> None \<noteq> num_consumers a \<and> num_consumers a = None)"
    by (cases "num_consumers a") simp_all
  have c2: "\<not> (num_consumers a \<noteq> None \<and> job_name a = Py PyNone)"
    using assms by auto
  show ?thesis
    unfolding DataServiceDatasetV2_init_def Let_def
    apply (simp only: c1 c2 if_False)
    apply (intro unbound_or_conversion_step unbound_at_line_189)
    done
qed

lemma init_never_returns: "DataServiceDatasetV2_init e a \<noteq> Inr d"
  by (simp add: DataServiceDatasetV2_init_def Let_def read_local_def bind_eq_Inr_iff)

lemma init_example:
  "DataServiceDatasetV2_init example_env example_args = Inl (UnboundLocalError ''variant_tensor'')"
  by (simp add: DataServiceDatasetV2_init_def example_env_def example_args_def read_local_def)

lemma init_example_one_of_pair:
  "DataServiceDatasetV2_init example_env (example_args\<lparr> consumer_index := Some 0 \<rparr>)
     = Inl (UnboundLocalError ''variant_tensor'')"
  by (simp add: DataServiceDatasetV2_init_def example_env_def example_args_def read_local_def)

lemma init_example_other_of_pair:
  "DataServiceDatasetV2_init example_env (example_args\<lparr> num_consumers := Some 2 \<rparr>)
     = Inl (UnboundLocalError ''variant_tensor'')"
  by (simp add: DataServiceDatasetV2_init_def example_env_def example_args_def read_local_def)

lemma unbound_or_listed_conversion_step:
  assumes "(v0, dt0) \<in> S"
      and "\<And>t. f t = Inl (UnboundLocalError ''variant_tensor'')
             \<or> (\<exists>(v, dt) \<in> S. \<exists>err. convert_to_tensor e v dt = Inl err \<and> f t = Inl err)"
  shows "bind (convert_to_tensor e v0 dt0) f = Inl (UnboundLocalError ''variant_tensor'')
         \<or> (\<exists>(v, dt) \<in> S. \<exists>err. convert_to_tensor e v dt = Inl err
                \<and> bind (convert_to_tensor e v0 dt0) f = Inl err)"
proof (cases "convert_to_tensor e v0 dt0")
  case (Inl err)
  then show ?thesis using assms(1) by auto
next
  case (Inr t)
  then show ?thesis using assms(2) [of t] by simp
qed

lemma unbound_at_line_189_listed:
  "bind (read_local ''variant_tensor'' None) f = Inl (UnboundLocalError ''variant_tensor'')
   \<or> (\<exists>(v, dt) \<in> S. \<exists>err. convert_to_tensor e v dt = Inl err
          \<and> bind (read_local ''variant_tensor'' None) f = Inl err)"
  by (simp add: read_local_def)

lemma init_unbound_or_listed_conversion:
  assumes "num_consumers a = None \<or> job_name a \<noteq> Py PyNone"
  shows "DataServiceDatasetV2_init e a = Inl (UnboundLocalError ''variant_tensor'')
         \<or> (\<exists>(v, dt) \<in> set (conversions e a). \<exists>err. convert_to_tensor e v dt = Inl err
                \<and> DataServiceDatasetV2_init e a = Inl err)"
proof -
  have c1: "\<not> (consumer_index a = None \<and> None \<noteq> num_consumers a \<and> num_consumers a = None)"
    by (cases "num_consumers a") simp_all
  have c2: "\<not> (num_consumers a \<noteq> None \<and> job_name a = Py PyNone)"
    using assms by auto
  show ?thesis
    unfolding DataServiceDatasetV2_init_def Let_def
    apply (simp only: c1 c2 if_False)
    apply (intro unbound_or_listed_conversion_step unbound_at_line_189_listed)
    apply (simp_all add: conversions_def)
    done
qed

lemma init_unbound_when_conversions_succeed:
  assumes "num_consumers a = None \<or> job_name a \<noteq> Py PyNone"
      and "\<forall>(v, dt) \<in> set (conversions e a). \<exists>t. convert_to_tensor e v dt = Inr t"
  shows "DataServiceDatasetV2_init e a = Inl (UnboundLocalError ''variant_tensor'')"
  using init_unbound_or_listed_conversion [OF assms(1), of e] assms(2) by fastforce

text \<open>
  C3. \<^verbatim>\<open>_DataServiceDatasetV2.__init__\<close> never completes: it returns no object for any
  arguments. When its two checks pass and the nine tensor conversions of lines 154-179
  succeed, it raises \<^verbatim>\<open>UnboundLocalError\<close> for \<^verbatim>\<open>variant_tensor\<close> at line 189. When the
  checks pass, the only other exception it can raise is the one raised by one of those
  nine conversions.
\<close>

theorem reader_construction_never_completes:
  "(\<forall>d. DataServiceDatasetV2_init e a \<noteq> Inr d)
   \<and> ((num_consumers a = None \<or> job_name a \<noteq> Py PyNone)
        \<and> (\<forall>(v, dt) \<in> set (conversions e a). \<exists>t. convert_to_tensor e v dt = Inr t) \<longrightarrow>
        DataServiceDatasetV2_init e a = Inl (UnboundLocalError ''variant_tensor''))
   \<and> (num_consumers a = None \<or> job_name a \<noteq> Py PyNone \<longrightarrow>
        DataServiceDatasetV2_init e a = Inl (UnboundLocalError ''variant_tensor'')
        \<or> (\<exists>(v, dt) \<in> set (conversions e a). \<exists>err. convert_to_tensor e v dt = Inl err
               \<and> DataServiceDatasetV2_init e a = Inl err))"
  using init_never_returns init_unbound_when_conversions_succeed
        init_unbound_or_listed_conversion
  by blast

theorem reader_construction_never_completes_witness:
  "(num_consumers example_args = None \<or> job_name example_args \<noteq> Py PyNone)
   \<and> map (\<lambda>(v, dt). convert_to_tensor example_env v dt) (conversions example_env example_args)
       = [Inr (Int64Tensor 7), Inr (StringTensor ''parallel_epochs''),
          Inr (StringTensor ''host:5000''), Inr (StringTensor ''grpc''),
          Inr (StringTensor ''train''), Inr (Int64Tensor (- 1)), Inr (Int64Tensor (- 1)),
          Inr (Int64Tensor (- 1)), Inr (Int64Tensor 1)]
   \<and> (\<forall>d. DataServiceDatasetV2_init example_env example_args \<noteq> Inr d)
   \<and> DataServiceDatasetV2_init example_env example_args
         = Inl (UnboundLocalError ''variant_tensor'')"
proof -
  have h1: "num_consumers example_args = None \<or> job_name example_args \<noteq> Py PyNone"
    by (simp add: example_args_def)
  have h2: "\<forall>(v, dt) \<in> set (conversions example_env example_args).
          \<exists>t. convert_to_tensor example_env v dt = Inr t"
    by (simp add: conversions_def example_args_def example_env_def)
  have h3: "map (\<lambda>(v, dt). convert_to_tensor example_env v dt)
               (conversions example_env example_args)
       = [Inr (Int64Tensor 7), Inr (StringTensor ''parallel_epochs''),
          Inr (StringTensor ''host:5000''), Inr (StringTensor ''grpc''),
          Inr (StringTensor ''train''), Inr (Int64Tensor (- 1)), Inr (Int64Tensor (- 1)),
          Inr (Int64Tensor (- 1)), Inr (Int64Tensor 1)]"
    by (simp add: conversions_def example_args_def example_env_def)
  note inst = reader_construction_never_completes [of example_env example_args]
  from inst h1 h2 h3 show ?thesis by blast
qed

text \<open>
  C8. When \<^verbatim>\<open>num_consumers\<close> is set and \<^verbatim>\<open>job_name\<close> is \<^verbatim>\<open>None\<close>, the constructor raises
  the \<^verbatim>\<open>ValueError\<close> that says that \<^verbatim>\<open>job_name\<close> must be set. When \<^verbatim>\<open>job_name\<close> is set,
  the check passes: the constructor goes on to the conversions and to line 189.
\<close>

theorem job_name_required_with_num_consumers:
  "(num_consumers a \<noteq> None \<and> job_name a = Py PyNone \<longrightarrow>
      DataServiceDatasetV2_init e a
        = Inl (ValueError [PyStr ''job_name must be set when setting num_consumers'']))
   \<and> (job_name a \<noteq> Py PyNone \<longrightarrow>
        DataServiceDatasetV2_init e a = Inl (UnboundLocalError ''variant_tensor'')
        \<or> (\<exists>v dt err. convert_to_tensor e v dt = Inl err
               \<and> DataServiceDatasetV2_init e a = Inl err))"
proof (intro conjI impI)
  assume h: "num_consumers a \<noteq> None \<and> job_name a = Py PyNone"
  have c1: "\<not> (consumer_index a = None \<and> None \<noteq> num_consumers a \<and> num_consumers a = None)"
    by (cases "num_consumers a") simp_all
  show "DataServiceDatasetV2_init e a
        = Inl (ValueError [PyStr ''job_name must be set when setting num_consumers''])"
    unfolding DataServiceDatasetV2_init_def using h by (simp only: c1 if_False) simp
next
  assume "job_name a \<noteq> Py PyNone"
  then show "DataServiceDatasetV2_init e a = Inl (UnboundLocalError ''variant_tensor'')
        \<or> (\<exists>v dt err. convert_to_tensor e v dt = Inl err
               \<and> DataServiceDatasetV2_init e a = Inl err)"
    by (intro init_after_checks) simp
qed

theorem job_name_required_with_num_consumers_witness:
  "DataServiceDatasetV2_init example_env
      (example_args\<lparr> job_name := Py PyNone, consumer_index := Some 0, num_consumers := Some 2 \<rparr>)
     = Inl (ValueError [PyStr ''job_name must be set when setting num_consumers''])
   \<and> job_name (example_args\<lparr> consumer_index := Some 0, num_consumers := Some 2 \<rparr>) \<noteq> Py PyNone
   \<and> (DataServiceDatasetV2_init example_env
         (example_args\<lparr> consumer_index := Some 0, num_consumers := Some 2 \<rparr>)
         = Inl (UnboundLocalError ''variant_tensor'')
       \<or> (\<exists>v dt err. convert_to_tensor example_env v dt = Inl err
              \<and> DataServiceDatasetV2_init example_env
                   (example_args\<lparr> consumer_index := Some 0, num_consumers := Some 2 \<rparr>)
                   = Inl err))"
proof -
  have a: "DataServiceDatasetV2_init example_env
      (example_args\<lparr> job_name := Py PyNone, consumer_index := Some 0, num_consumers := Some 2 \<rparr>)
     = Inl (ValueError [PyStr ''job_name must be set when setting num_consumers''])"
    using job_name_required_with_num_consumers
      [of "example_args\<lparr> job_name := Py PyNone, consumer_index := Some 0, num_consumers := Some 2 \<rparr>"
          example_env]
    by simp
  have h: "job_name (example_args\<lparr> consumer_index := Some 0, num_consumers := Some 2 \<rparr>) \<noteq> Py PyNone"
    by (simp add: example_args_def)
  from conjunct2 [OF job_name_required_with_num_consumers
      [of "example_args\<lparr> consumer_index := Some 0, num_consumers := Some 2 \<rparr>" example_env]] h a
  show ?thesis by blast
qed

text \<open>
  C1. The condition of line 139 is never true, so the error for a consumer index
  without a number of consumers (or the reverse) is never raised: with only
  \<^verbatim>\<open>consumer_index\<close> set, and with only \<^verbatim>\<open>num_consumers\<close> set and a job name, the
  constructor passes both checks and runs on to line 189.
\<close>

theorem consumer_pair_check_never_raises:
  "DataServiceDatasetV2_init example_env (example_args\<lparr> consumer_index := Some 0 \<rparr>)
     = Inl (UnboundLocalError ''variant_tensor'')
   \<and> DataServiceDatasetV2_init example_env (example_args\<lparr> num_consumers := Some 2 \<rparr>)
     = Inl (UnboundLocalError ''variant_tensor'')"
  using init_example_one_of_pair init_example_other_of_pair by (rule conjI)

subsection \<open>Registering, reading and distributing\<close>

lemmas example_values =
  example_env_def example_params_def
  validate_def PARALLEL_EPOCHS_def DISTRIBUTED_EPOCH_def
  COMPRESSION_AUTO_def COMPRESSION_NONE_def
  parse_service_def str_split_def Let_def

lemma internal_from_dataset_id_returns:
  assumes "internal_from_dataset_id e cls processing_mode service dataset_id element_spec p compression
             = Inr out"
  shows "\<exists>spec protocol address d0.
           element_spec = Some spec
         \<and> (compression = PyStr ''AUTO'' \<or> compression = PyNone)
         \<and> cls (reader_call processing_mode protocol address dataset_id
                  (if compression = PyStr ''AUTO'' then TensorSpec [] DT_VARIANT else spec) p) = Inr d0
         \<and> out = (let d1 = (if compression = PyStr ''AUTO''
                             then MapDataset d0 (uncompress spec) (AUTOTUNE e) else d0)
                  in if job_name p \<noteq> Py PyNone
                     then OptionsDataset d1 ((Options e)\<lparr> auto_shard_policy := OFF \<rparr>)
                     else d1)"
  using assms
  by (auto simp: internal_from_dataset_id_def reader_call_def bind_eq_Inr_iff Let_def
        COMPRESSION_AUTO_def COMPRESSION_NONE_def split: if_splits option.splits)

lemma internal_register_dataset_returns:
  assumes "internal_register_dataset e service ds compression log = (Inr i, log')"
  shows "\<exists>req. log' = log @ [req]
         \<and> register_dataset_op e req = Inr i
         \<and> (compression = PyStr ''AUTO'' \<or> compression = PyNone)
         \<and> reg_dataset req =
             DebugOptionsDataset (PrefetchDataset
               (MapDataset ds (if compression = PyStr ''AUTO'' then compress else pass_through)
                  (AUTOTUNE e))
               (AUTOTUNE e))"
  using assms
  by (auto simp: internal_register_dataset_def Let_def COMPRESSION_AUTO_def COMPRESSION_NONE_def
        split: if_splits sum.splits prod.splits)

lemma internal_distribute_returns:
  assumes "internal_distribute e cls processing_mode service p compression = Inr f"
  shows "(compression = PyStr ''AUTO'' \<or> compression = PyNone)
       \<and> f = apply_fn e cls processing_mode service p
               (if compression = PyStr ''AUTO'' \<and> data_transfer_protocol p \<noteq> None
                then PyNone else compression)"
  using assms
  by (auto simp: internal_distribute_def bind_eq_Inr_iff Let_def
        COMPRESSION_AUTO_def COMPRESSION_NONE_def split: if_splits)

lemma apply_fn_returns:
  assumes "apply_fn e cls processing_mode service p c ds log = (Inr out, log')"
  shows "\<exists>i. internal_register_dataset e service ds c log = (Inr i, log')
           \<and> internal_from_dataset_id e cls processing_mode service i
                (Some (dataset_element_spec e ds)) p c = Inr out"
  using assms by (auto simp: apply_fn_def split: prod.splits sum.splits)

text \<open>
  \<^verbatim>\<open>from_dataset_id\<close> accepts \<^verbatim>\<open>None\<close> and non-empty strings as job names, and the job
  name the reader class receives is the derived one.
\<close>

lemma check_job_name_passes:
  "check_job_name e jn = Inr () \<longleftrightarrow> jn = Py PyNone \<or> (\<exists>s. s \<noteq> [] \<and> jn = Py (PyStr s))"
  by (cases jn rule: isinstance_str.cases) (auto simp: check_job_name_def)

lemma from_dataset_id_passes_effective_job_name:
  assumes "from_dataset_id e cls processing_mode service dataset_id element_spec p = Inr out"
  shows "\<exists>args d0. cls args = Inr d0
           \<and> job_name args = effective_job_name dataset_id (job_name p)
           \<and> (job_name p = Py PyNone \<or> (\<exists>s. s \<noteq> [] \<and> job_name p = Py (PyStr s)))"
proof -
  from assms have chk: "check_job_name e (job_name p) = Inr ()"
    and rd: "internal_from_dataset_id e cls processing_mode service dataset_id element_spec
           (p\<lparr> job_name := effective_job_name dataset_id (job_name p),
               task_refresh_interval_hint_ms := None \<rparr>) (PyStr ''AUTO'') = Inr out"
    by (auto simp: from_dataset_id_def bind_eq_Inr_iff)
  from internal_from_dataset_id_returns [OF rd]
  obtain spec protocol address d0 where
    "cls (reader_call processing_mode protocol address dataset_id
            (if PyStr ''AUTO'' = PyStr ''AUTO'' then TensorSpec [] DT_VARIANT else spec)
            (p\<lparr> job_name := effective_job_name dataset_id (job_name p),
                task_refresh_interval_hint_ms := None \<rparr>)) = Inr d0"
    by blast
  moreover have "job_name (reader_call processing_mode protocol address dataset_id
            (if PyStr ''AUTO'' = PyStr ''AUTO'' then TensorSpec [] DT_VARIANT else spec)
            (p\<lparr> job_name := effective_job_name dataset_id (job_name p),
                task_refresh_interval_hint_ms := None \<rparr>))
          = effective_job_name dataset_id (job_name p)"
    by (simp add: reader_call_def)
  ultimately show ?thesis
    using chk [unfolded check_job_name_passes] by blast
qed

text \<open>
  With the classes this file binds to \<^verbatim>\<open>_DataServiceDataset\<close>, construction never
  completes, so neither \<^verbatim>\<open>_from_dataset_id\<close>, nor \<^verbatim>\<open>from_dataset_id\<close>, nor the
  transformation returned by \<^verbatim>\<open>_distribute\<close> returns a dataset.
\<close>

lemma reader_classes_never_return: "DataServiceDataset e a \<noteq> Inr d"
  by (simp add: DataServiceDataset_def DataServiceDatasetV1_init_def init_never_returns)

lemma internal_from_dataset_id_never_returns:
  "internal_from_dataset_id e (DataServiceDataset e) processing_mode service dataset_id
     element_spec p compression \<noteq> Inr out"
  using internal_from_dataset_id_returns reader_classes_never_return by blast

lemma from_dataset_id_never_returns:
  "from_dataset_id e (DataServiceDataset e) processing_mode service dataset_id element_spec p
     \<noteq> Inr out"
  by (auto simp: from_dataset_id_def bind_eq_Inr_iff internal_from_dataset_id_never_returns)

lemma apply_fn_never_returns:
  "apply_fn e (DataServiceDataset e) processing_mode service p c ds log \<noteq> (Inr out, log')"
  using apply_fn_returns internal_from_dataset_id_never_returns by blast

text \<open>The functions on the example values, with the class the module binds.\<close>

lemma reader_class_example:
  "DataServiceDataset example_env
     \<lparr> job_name = jn, consumer_index = None, num_consumers = None,
       max_outstanding_requests = None, max_request_pipelining_per_worker = 1,
       task_refresh_interval_hint_ms = None, data_transfer_protocol = None,
       target_workers = ''AUTO'', kw_dataset_id = 7,
       kw_processing_mode = PyStr ''parallel_epochs'', kw_address = PyStr ''host:5000'',
       kw_element_spec = sp, kw_protocol = PyStr ''grpc'' \<rparr>
   = Inl (UnboundLocalError ''variant_tensor'')"
  by (simp add: DataServiceDataset_def DataServiceDatasetV2_init_def example_env_def
        read_local_def split: tfval.splits pyval.splits)

lemma internal_from_dataset_id_example:
  "internal_from_dataset_id example_env (DataServiceDataset example_env)
      (PyStr ''parallel_epochs'') (ServiceVal (PyStr ''grpc://host:5000'')) 7
      (Some (TensorSpec [] DT_INT64)) example_params (PyStr ''AUTO'')
   = Inl (UnboundLocalError ''variant_tensor'')"
  by (simp add: internal_from_dataset_id_def example_params_def validate_def
        PARALLEL_EPOCHS_def DISTRIBUTED_EPOCH_def COMPRESSION_AUTO_def COMPRESSION_NONE_def
        parse_service_def str_split_def Let_def reader_class_example)

lemma register_dataset_example:
  "register_dataset example_env (ServiceVal (PyStr ''grpc://host:5000'')) (UserDataset 0) []
   = (Inr 7,
      [\<lparr> reg_dataset =
           DebugOptionsDataset (PrefetchDataset (MapDataset (UserDataset 0) compress (- 1)) (- 1)),
         reg_address = PyStr ''host:5000'',
         reg_protocol = PyStr ''grpc'',
         reg_external_state_policy = WARN \<rparr>])"
  by (simp add: register_dataset_def internal_register_dataset_def example_values)

lemma from_dataset_id_example:
  "from_dataset_id example_env (DataServiceDataset example_env) (PyStr ''parallel_epochs'')
     (ServiceVal (PyStr ''grpc://host:5000'')) 7 (Some (TensorSpec [] DT_INT64)) example_params
   = Inl (UnboundLocalError ''variant_tensor'')"
  by (simp add: from_dataset_id_def check_job_name_def effective_job_name_def
        internal_from_dataset_id_def example_params_def validate_def
        PARALLEL_EPOCHS_def DISTRIBUTED_EPOCH_def COMPRESSION_AUTO_def COMPRESSION_NONE_def
        parse_service_def str_split_def Let_def reader_class_example)

lemma apply_fn_example:
  "apply_fn example_env (DataServiceDataset example_env) (PyStr ''parallel_epochs'')
     (ServiceVal (PyStr ''grpc://host:5000'')) example_params (PyStr ''AUTO'') (UserDataset 0) []
   = (Inl (UnboundLocalError ''variant_tensor''),
      [\<lparr> reg_dataset =
           DebugOptionsDataset (PrefetchDataset (MapDataset (UserDataset 0) compress (- 1)) (- 1)),
         reg_address = PyStr ''host:5000'',
         reg_protocol = PyStr ''grpc'',
         reg_external_state_policy = WARN \<rparr>])"
proof -
  have reg: "internal_register_dataset example_env (ServiceVal (PyStr ''grpc://host:5000''))
               (UserDataset 0) (PyStr ''AUTO'') []
   = (Inr 7,
      [\<lparr> reg_dataset =
           DebugOptionsDataset (PrefetchDataset (MapDataset (UserDataset 0) compress (- 1)) (- 1)),
         reg_address = PyStr ''host:5000'',
         reg_protocol = PyStr ''grpc'',
         reg_external_state_policy = WARN \<rparr>])"
    using register_dataset_example by (simp add: register_dataset_def)
  have spec: "dataset_element_spec example_env (UserDataset 0) = TensorSpec [] DT_INT64"
    by (simp add: example_env_def)
  show ?thesis
    unfolding apply_fn_def reg by (simp add: spec internal_from_dataset_id_example)
qed

text \<open>
  C9. \<^verbatim>\<open>_from_dataset_id\<close> returns no dataset, with or without a job name: the reader class
  raises at line 818, before the lines 837-841 that would set \<^verbatim>\<open>auto_shard_policy\<close> to
  \<^verbatim>\<open>OFF\<close> are reached. With the job name \<^verbatim>\<open>"train"\<close> and otherwise valid arguments the
  call raises \<^verbatim>\<open>UnboundLocalError\<close>.
\<close>

theorem from_dataset_id_returns_no_dataset:
  "(\<forall>out. internal_from_dataset_id e (DataServiceDataset e) processing_mode service dataset_id
            element_spec p compression \<noteq> Inr out)
   \<and> internal_from_dataset_id example_env (DataServiceDataset example_env)
        (PyStr ''parallel_epochs'') (ServiceVal (PyStr ''grpc://host:5000'')) 7
        (Some (TensorSpec [] DT_INT64)) example_params (PyStr ''AUTO'')
      = Inl (UnboundLocalError ''variant_tensor'')"
  using internal_from_dataset_id_never_returns internal_from_dataset_id_example by blast

text \<open>
  C5. For a valid processing mode, \<^verbatim>\<open>_distribute\<close> returns its closure with the compression
  resolved: \<^verbatim>\<open>"AUTO"\<close> with a data transfer protocol becomes \<^verbatim>\<open>None\<close>, \<^verbatim>\<open>"AUTO"\<close> without
  one stays \<^verbatim>\<open>"AUTO"\<close>, and \<^verbatim>\<open>None\<close> stays \<^verbatim>\<open>None\<close> whatever the transfer protocol is.
\<close>

theorem distribute_resolves_compression:
  assumes "validate processing_mode = Inr ()"
  shows "(data_transfer_protocol p \<noteq> None \<longrightarrow>
            internal_distribute e cls processing_mode service p (PyStr ''AUTO'')
              = Inr (apply_fn e cls processing_mode service p PyNone))
       \<and> (data_transfer_protocol p = None \<longrightarrow>
            internal_distribute e cls processing_mode service p (PyStr ''AUTO'')
              = Inr (apply_fn e cls processing_mode service p (PyStr ''AUTO'')))
       \<and> internal_distribute e cls processing_mode service p PyNone
              = Inr (apply_fn e cls processing_mode service p PyNone)"
  using assms
  by (simp add: internal_distribute_def Let_def COMPRESSION_AUTO_def COMPRESSION_NONE_def)

theorem distribute_resolves_compression_witness:
  "validate (PyStr ''parallel_epochs'') = Inr ()
   \<and> internal_distribute example_env (DataServiceDataset example_env) (PyStr ''parallel_epochs'')
        (ServiceVal (PyStr ''host:5000''))
        (example_params\<lparr> data_transfer_protocol := Some ''custom'' \<rparr>) (PyStr ''AUTO'')
      = Inr (apply_fn example_env (DataServiceDataset example_env) (PyStr ''parallel_epochs'')
               (ServiceVal (PyStr ''host:5000''))
               (example_params\<lparr> data_transfer_protocol := Some ''custom'' \<rparr>) PyNone)
   \<and> internal_distribute example_env (DataServiceDataset example_env) (PyStr ''parallel_epochs'')
        (ServiceVal (PyStr ''host:5000'')) example_params (PyStr ''AUTO'')
      = Inr (apply_fn example_env (DataServiceDataset example_env) (PyStr ''parallel_epochs'')
               (ServiceVal (PyStr ''host:5000'')) example_params (PyStr ''AUTO''))
   \<and> internal_distribute example_env (DataServiceDataset example_env) (PyStr ''parallel_epochs'')
        (ServiceVal (PyStr ''host:5000''))
        (example_params\<lparr> data_transfer_protocol := Some ''custom'' \<rparr>) PyNone
      = Inr (apply_fn example_env (DataServiceDataset example_env) (PyStr ''parallel_epochs'')
               (ServiceVal (PyStr ''host:5000''))
               (example_params\<lparr> data_transfer_protocol := Some ''custom'' \<rparr>) PyNone)"
proof -
  have v: "validate (PyStr ''parallel_epochs'') = Inr ()"
    by (simp add: validate_def PARALLEL_EPOCHS_def)
  have p1: "data_transfer_protocol (example_params\<lparr> data_transfer_protocol := Some ''custom'' \<rparr>)
              \<noteq> None" by simp
  have p2: "data_transfer_protocol example_params = None"
    by (simp add: example_params_def)
  note i1 = distribute_resolves_compression [OF v, of
              "example_params\<lparr> data_transfer_protocol := Some ''custom'' \<rparr>"
              example_env "DataServiceDataset example_env" "ServiceVal (PyStr ''host:5000'')"]
  note i2 = distribute_resolves_compression [OF v, of example_params
              example_env "DataServiceDataset example_env" "ServiceVal (PyStr ''host:5000'')"]
  from v i1 i2 p1 p2 show ?thesis by blast
qed

text \<open>
  C6. The transformation returned by \<^verbatim>\<open>_distribute\<close> returns no dataset. With compression
  \<^verbatim>\<open>"AUTO"\<close> and valid arguments it sends the registration of the dataset under the
  compress map and then raises \<^verbatim>\<open>UnboundLocalError\<close> in the reader class, before the
  uncompress map of lines 832-835 is added: the registration is compressed and nothing
  reads it.
\<close>

theorem distribute_registers_then_read_raises:
  "(\<forall>ds log out log'.
      apply_fn e (DataServiceDataset e) processing_mode service p c ds log \<noteq> (Inr out, log'))
   \<and> internal_distribute example_env (DataServiceDataset example_env) (PyStr ''parallel_epochs'')
        (ServiceVal (PyStr ''grpc://host:5000'')) example_params (PyStr ''AUTO'')
      = Inr (apply_fn example_env (DataServiceDataset example_env) (PyStr ''parallel_epochs'')
               (ServiceVal (PyStr ''grpc://host:5000'')) example_params (PyStr ''AUTO''))
   \<and> apply_fn example_env (DataServiceDataset example_env) (PyStr ''parallel_epochs'')
        (ServiceVal (PyStr ''grpc://host:5000'')) example_params (PyStr ''AUTO'') (UserDataset 0) []
      = (Inl (UnboundLocalError ''variant_tensor''),
         [\<lparr> reg_dataset =
              DebugOptionsDataset
                (PrefetchDataset (MapDataset (UserDataset 0) compress (- 1)) (- 1)),
            reg_address = PyStr ''host:5000'',
            reg_protocol = PyStr ''grpc'',
            reg_external_state_policy = WARN \<rparr>])"
proof (intro conjI allI)
  show "internal_distribute example_env (DataServiceDataset example_env) (PyStr ''parallel_epochs'')
        (ServiceVal (PyStr ''grpc://host:5000'')) example_params (PyStr ''AUTO'')
      = Inr (apply_fn example_env (DataServiceDataset example_env) (PyStr ''parallel_epochs'')
               (ServiceVal (PyStr ''grpc://host:5000'')) example_params (PyStr ''AUTO''))"
    by (simp add: internal_distribute_def example_params_def validate_def PARALLEL_EPOCHS_def
          COMPRESSION_AUTO_def COMPRESSION_NONE_def Let_def)
qed (rule apply_fn_never_returns apply_fn_example)+

text \<open>
  C10. \<^verbatim>\<open>register_dataset\<close> sends the dataset under the compress map, and
  \<^verbatim>\<open>from_dataset_id\<close> on the id it returned raises \<^verbatim>\<open>UnboundLocalError\<close>: it returns no
  dataset for any arguments, so the uncompress map of lines 832-835 is never added.
\<close>

theorem public_read_raises_after_registration:
  "register_dataset example_env (ServiceVal (PyStr ''grpc://host:5000'')) (UserDataset 0) []
     = (Inr 7,
        [\<lparr> reg_dataset =
             DebugOptionsDataset
               (PrefetchDataset (MapDataset (UserDataset 0) compress (- 1)) (- 1)),
           reg_address = PyStr ''host:5000'',
           reg_protocol = PyStr ''grpc'',
           reg_external_state_policy = WARN \<rparr>])
   \<and> from_dataset_id example_env (DataServiceDataset example_env) (PyStr ''parallel_epochs'')
        (ServiceVal (PyStr ''grpc://host:5000'')) 7 (Some (TensorSpec [] DT_INT64)) example_params
      = Inl (UnboundLocalError ''variant_tensor'')
   \<and> (\<forall>out. from_dataset_id e (DataServiceDataset e) processing_mode service dataset_id
              element_spec p \<noteq> Inr out)"
  using register_dataset_example from_dataset_id_example from_dataset_id_never_returns
  by blast

end
